theory Spec2Isabelle
  imports Main
begin

section \<open>Values and exceptions\<close>

text \<open>
  The renderer of \<^verbatim>\<open>src/code.py\<close> works on the dictionary that the document exporter
  produces: nested dictionaries and lists with strings, integers, booleans and \<^verbatim>\<open>None\<close>
  at the leaves. A dictionary is an association list with distinct keys, in insertion order;
  a lookup takes the first binding of a key. A string is a list of characters, one
  \<^typ>\<open>char\<close> for each code point, so the strings of the model are the ones whose code points
  are below 256. Floating-point numbers are outside the model.

  Every exception the code can raise on such a value is a value of \<open>py_error\<close>, and a
  function that can raise returns \<open>py_error + 'a\<close> with \<open>Inl\<close> for the exception.
  The progress messages that the code prints are not part of the result and are left out.
\<close>

datatype json =
    JNull
  | JBool bool
  | JInt int
  | JStr string
  | JList "json list"
  | JDict "(string \<times> json) list"

datatype py_error = KeyError | IndexError | TypeError | AttributeError | ValueError

section \<open>Built-in operations of the language\<close>

subsection \<open>Strings\<close>

definition startswith :: "string \<Rightarrow> string \<Rightarrow> bool" where
  "startswith s p = (take (length p) s = p)"

text \<open>\<^verbatim>\<open>s.replace(old, new)\<close>: the occurrences of \<open>old\<close> are found from left to right
  and do not overlap; the text put in is not searched again.\<close>

function replace_str :: "string \<Rightarrow> string \<Rightarrow> string \<Rightarrow> string" where
  "replace_str old new [] = (if old = [] then new else [])"
| "replace_str old new (c # cs) =
     (if old = [] then new @ c # replace_str old new cs
      else if startswith (c # cs) old
        then new @ replace_str old new (drop (length old) (c # cs))
      else c # replace_str old new cs)"
  by pat_completeness auto
termination
  by (relation "measure (\<lambda>(old, new, s). length s)") auto

text \<open>\<^verbatim>\<open>s.split(sep)\<close> for a separator of one character: the result is never empty.\<close>

fun split_str :: "char \<Rightarrow> string \<Rightarrow> string list" where
  "split_str sep [] = [[]]"
| "split_str sep (c # cs) =
     (if c = sep then [] # split_str sep cs
      else (case split_str sep cs of
              [] \<Rightarrow> [[c]]
            | w # ws \<Rightarrow> (c # w) # ws))"

text \<open>\<^verbatim>\<open>sep.join(parts)\<close>.\<close>

fun join_str :: "string \<Rightarrow> string list \<Rightarrow> string" where
  "join_str sep [] = []"
| "join_str sep [x] = x"
| "join_str sep (x # y # ys) = x @ sep @ join_str sep (y # ys)"

text \<open>The white space of \<^verbatim>\<open>str.strip()\<close> among the code points below 256.\<close>

definition isspace :: "char \<Rightarrow> bool" where
  "isspace c \<longleftrightarrow> c \<in> {CHR 0x09, CHR 0x0A, CHR 0x0B, CHR 0x0C, CHR 0x0D,
                    CHR 0x1C, CHR 0x1D, CHR 0x1E, CHR 0x1F, CHR 0x20, CHR 0x85, CHR 0xA0}"

definition strip :: "string \<Rightarrow> string" where
  "strip s = rev (dropWhile isspace (rev (dropWhile isspace s)))"

text \<open>
  \<^verbatim>\<open>str.isdigit()\<close> holds for a non-empty string of digits. Below 256 the digits are
  \<^verbatim>\<open>0\<close> to \<^verbatim>\<open>9\<close> and the superscripts two, three and one (0xB2, 0xB3, 0xB9);
  \<^verbatim>\<open>int()\<close> reads only the former and raises \<^verbatim>\<open>ValueError\<close> on the latter, as it does
  on more digits than the interpreter's limit for conversions (4300 unless configured).
\<close>

definition decimal_digit :: "char \<Rightarrow> bool" where
  "decimal_digit c \<longleftrightarrow> c \<in> set ''0123456789''"

definition isdigit :: "string \<Rightarrow> bool" where
  "isdigit s \<longleftrightarrow> s \<noteq> [] \<and> (\<forall>c \<in> set s. decimal_digit c \<or> c \<in> {CHR 0xB2, CHR 0xB3, CHR 0xB9})"

definition digit_value :: "char \<Rightarrow> nat" where
  "digit_value c = length (takeWhile (\<lambda>d. d \<noteq> c) ''0123456789'')"

definition int_max_str_digits :: nat where
  "int_max_str_digits = 4300"

definition py_int :: "string \<Rightarrow> py_error + nat" where
  "py_int s =
     (if (\<forall>c \<in> set s. decimal_digit c) \<and> s \<noteq> [] \<and> length s \<le> int_max_str_digits
      then Inr (foldl (\<lambda>acc c. 10 * acc + digit_value c) 0 s)
      else Inl ValueError)"

text \<open>\<^verbatim>\<open>str(n)\<close> for an integer.\<close>

fun str_nat :: "nat \<Rightarrow> string" where
  "str_nat n =
     (if n < 10 then [''0123456789'' ! n]
      else str_nat (n div 10) @ [''0123456789'' ! (n mod 10)])"

definition str_int :: "int \<Rightarrow> string" where
  "str_int i = (if i < 0 then ''-'' @ str_nat (nat (- i)) else str_nat (nat i))"

text \<open>
  \<^verbatim>\<open>repr\<close> of a string: single quotes unless the string has a single quote and no double
  quote; the quote in use and the backslash are escaped, tab, line feed and carriage return
  are written with their letters, and every other character that is not printable is
  written \<^verbatim>\<open>\xhh\<close>.
\<close>

definition hex2 :: "char \<Rightarrow> string" where
  "hex2 c = [''0123456789abcdef'' ! (of_char c div 16), ''0123456789abcdef'' ! (of_char c mod 16)]"

definition isprintable :: "char \<Rightarrow> bool" where
  "isprintable c \<longleftrightarrow>
     (let n = (of_char c :: nat) in 32 \<le> n \<and> n \<noteq> 173 \<and> \<not> (127 \<le> n \<and> n \<le> 160))"

definition repr_char :: "char \<Rightarrow> char \<Rightarrow> string" where
  "repr_char q c =
     (if c = q \<or> c = CHR 0x5C then [CHR 0x5C, c]
      else if c = CHR 0x09 then [CHR 0x5C, CHR ''t'']
      else if c = CHR 0x0A then [CHR 0x5C, CHR ''n'']
      else if c = CHR 0x0D then [CHR 0x5C, CHR ''r'']
      else if isprintable c then [c]
      else [CHR 0x5C, CHR ''x''] @ hex2 c)"

definition repr_str :: "string \<Rightarrow> string" where
  "repr_str s =
     (let q = (if CHR 0x27 \<in> set s \<and> CHR 0x22 \<notin> set s then CHR 0x22 else CHR 0x27)
      in q # concat (map (repr_char q) s) @ [q])"

subsection \<open>Values\<close>

text \<open>\<^verbatim>\<open>repr(v)\<close> and \<^verbatim>\<open>str(v)\<close>, which is also what an f-string puts in for \<open>v\<close>.\<close>

fun py_repr :: "json \<Rightarrow> string" where
  "py_repr JNull = ''None''"
| "py_repr (JBool b) = (if b then ''True'' else ''False'')"
| "py_repr (JInt i) = str_int i"
| "py_repr (JStr s) = repr_str s"
| "py_repr (JList xs) = ''['' @ join_str '', '' (map py_repr xs) @ '']''"
| "py_repr (JDict kvs) =
     ''{'' @ join_str '', '' (map (\<lambda>(k, v). repr_str k @ '': '' @ py_repr v) kvs) @ ''}''"

fun py_str :: "json \<Rightarrow> string" where
  "py_str (JStr s) = s"
| "py_str v = py_repr v"

text \<open>Truth value of a value in a condition.\<close>

fun truthy :: "json \<Rightarrow> bool" where
  "truthy JNull = False"
| "truthy (JBool b) = b"
| "truthy (JInt i) = (i \<noteq> 0)"
| "truthy (JStr s) = (s \<noteq> [])"
| "truthy (JList xs) = (xs \<noteq> [])"
| "truthy (JDict kvs) = (kvs \<noteq> [])"

text \<open>\<^verbatim>\<open>d.get(k, default)\<close> on a dictionary.\<close>

definition dict_get :: "(string \<times> json) list \<Rightarrow> string \<Rightarrow> json \<Rightarrow> json" where
  "dict_get kvs k dflt = (case map_of kvs k of None \<Rightarrow> dflt | Some v \<Rightarrow> v)"

text \<open>\<^verbatim>\<open>k in v\<close> for a string \<open>k\<close>: a key of a dictionary, an element of a list, a
  substring of a string; any other value is not iterable.\<close>

fun contains_str :: "string \<Rightarrow> string \<Rightarrow> bool" where
  "contains_str [] k = (k = [])"
| "contains_str (c # cs) k = (startswith (c # cs) k \<or> contains_str cs k)"

fun py_in :: "string \<Rightarrow> json \<Rightarrow> py_error + bool" where
  "py_in k (JDict kvs) = Inr (map_of kvs k \<noteq> None)"
| "py_in k (JList xs) = Inr (JStr k \<in> set xs)"
| "py_in k (JStr s) = Inr (contains_str s k)"
| "py_in k v = Inl TypeError"

text \<open>\<^verbatim>\<open>v[k]\<close> for a string \<open>k\<close>, and \<^verbatim>\<open>v[i]\<close> for an integer \<open>i\<close> that is not negative.\<close>

fun getitem_str :: "json \<Rightarrow> string \<Rightarrow> py_error + json" where
  "getitem_str (JDict kvs) k = (case map_of kvs k of None \<Rightarrow> Inl KeyError | Some v \<Rightarrow> Inr v)"
| "getitem_str v k = Inl TypeError"

fun getitem_int :: "json \<Rightarrow> nat \<Rightarrow> py_error + json" where
  "getitem_int (JList xs) i = (if i < length xs then Inr (xs ! i) else Inl IndexError)"
| "getitem_int (JStr s) i = (if i < length s then Inr (JStr [s ! i]) else Inl IndexError)"
| "getitem_int (JDict kvs) i = Inl KeyError"
| "getitem_int v i = Inl TypeError"

text \<open>The elements a \<^verbatim>\<open>for\<close> loop runs over: the items of a list, the keys of a
  dictionary, the characters of a string.\<close>

fun py_iter :: "json \<Rightarrow> py_error + json list" where
  "py_iter (JList xs) = Inr xs"
| "py_iter (JDict kvs) = Inr (map (\<lambda>(k, v). JStr k) kvs)"
| "py_iter (JStr s) = Inr (map (\<lambda>c. JStr [c]) s)"
| "py_iter v = Inl TypeError"

text \<open>\<^verbatim>\<open>v > 1\<close>: integers and booleans compare with an integer, nothing else does.\<close>

fun py_gt_one :: "json \<Rightarrow> py_error + bool" where
  "py_gt_one (JInt i) = Inr (i > 1)"
| "py_gt_one (JBool b) = Inr False"
| "py_gt_one v = Inl TypeError"

section \<open>HTML escaping\<close>

definition escape_html :: "json \<Rightarrow> string" where
  "escape_html text =
     (let text = (case text of JStr s \<Rightarrow> s | _ \<Rightarrow> py_str text)
      in replace_str [CHR 0x27] ''&#x27;''
          (replace_str [CHR 0x22] ''&quot;''
            (replace_str ''>'' ''&gt;''
              (replace_str ''<'' ''&lt;''
                (replace_str ''&'' ''&amp;'' text)))))"

section \<open>Reference resolution\<close>

text \<open>The loop of \<^verbatim>\<open>resolve_reference\<close> over the parts of the path.\<close>

fun navigate :: "json \<Rightarrow> string list \<Rightarrow> py_error + json" where
  "navigate current [] = Inr current"
| "navigate current (part # path) =
     (if isdigit part
      then (case py_int part of
              Inl e \<Rightarrow> Inl e
            | Inr i \<Rightarrow> (case getitem_int current i of
                          Inl e \<Rightarrow> Inl e
                        | Inr v \<Rightarrow> navigate v path))
      else (case getitem_str current part of
              Inl e \<Rightarrow> Inl e
            | Inr v \<Rightarrow> navigate v path))"

text \<open>Only a string has \<^verbatim>\<open>replace\<close>.\<close>

definition resolve_reference :: "json \<Rightarrow> json \<Rightarrow> py_error + json" where
  "resolve_reference ref_string json_content =
     (case ref_string of
        JStr s \<Rightarrow> navigate json_content (split_str (CHR ''/'') (replace_str ''#/'' [] s))
      | _ \<Rightarrow> Inl AttributeError)"

section \<open>The typed renderers\<close>

subsection \<open>Text\<close>

text \<open>The emphasis chosen by lines 165 to 172: at most one of the three, in this order.\<close>

definition other_formatting :: "(string \<times> json) list \<Rightarrow> string \<Rightarrow> string" where
  "other_formatting formatting text =
     (if truthy (dict_get formatting ''italic'' JNull)
        then ''<em>'' @ escape_html (JStr text) @ ''</em>''
      else if truthy (dict_get formatting ''underline'' JNull)
        then ''<u>'' @ escape_html (JStr text) @ ''</u>''
      else if truthy (dict_get formatting ''strikethrough'' JNull)
        then ''<del>'' @ escape_html (JStr text) @ ''</del>''
      else escape_html (JStr text))"

text \<open>The element chosen by lines 175 to 182.\<close>

definition text_element :: "string \<Rightarrow> json \<Rightarrow> string \<Rightarrow> string" where
  "text_element html_tag label text =
     (if html_tag = ''h2'' then ''<h2>'' @ text @ ''</h2>''
      else if label = JStr ''title'' then ''<h1>'' @ text @ ''</h1>''
      else if label = JStr ''heading'' then ''<h3>'' @ text @ ''</h3>''
      else ''<p>'' @ text @ ''</p>'')"

text \<open>Only a dictionary has \<^verbatim>\<open>get\<close> and only a string has \<^verbatim>\<open>strip\<close>.\<close>

definition process_text_item :: "json \<Rightarrow> py_error + string" where
  "process_text_item text_item =
     (case text_item of
        JDict item \<Rightarrow>
          (case dict_get item ''text'' (JStr []) of
             JStr raw \<Rightarrow>
               (let text = strip raw in
                if text = [] then Inr []
                else
                  (case dict_get item ''formatting'' (JDict []) of
                     JDict formatting \<Rightarrow>
                       (let label = dict_get item ''label'' (JStr ''paragraph'') in
                        if truthy (dict_get formatting ''bold'' JNull)
                        then
                          (if length text > 50
                           then Inr (text_element ''h2'' label (other_formatting formatting text))
                           else Inr (''<p>'' @ (''<strong>'' @ escape_html (JStr text) @ ''</strong>'')
                                       @ ''</p>''))
                        else Inr (text_element ''p'' label (other_formatting formatting text)))
                   | _ \<Rightarrow> Inl AttributeError))
           | _ \<Rightarrow> Inl AttributeError)
      | _ \<Rightarrow> Inl AttributeError)"

subsection \<open>Tables\<close>

text \<open>The body of the loop over the cells of a row (lines 207 to 223): the line it appends.\<close>

definition render_cell :: "json \<Rightarrow> py_error + string" where
  \<open>render_cell cell =
     (case cell of
        JDict c \<Rightarrow>
          (case dict_get c ''text'' (JStr []) of
             JStr raw \<Rightarrow>
               (let cell_text = strip raw;
                    is_header = (truthy (dict_get c ''column_header'' (JBool False))
                                 \<or> truthy (dict_get c ''row_header'' (JBool False)));
                    tag = (if is_header then ''th'' else ''td'');
                    row_span = dict_get c ''row_span'' (JInt 1);
                    col_span = dict_get c ''col_span'' (JInt 1)
                in case py_gt_one row_span of
                     Inl e \<Rightarrow> Inl e
                   | Inr wide_rows \<Rightarrow>
                       (case py_gt_one col_span of
                          Inl e \<Rightarrow> Inl e
                        | Inr wide_cols \<Rightarrow>
                            (let span_attrs =
                                   (if wide_rows then '' rowspan="'' @ py_str row_span @ ''"'' else [])
                                   @ (if wide_cols then '' colspan="'' @ py_str col_span @ ''"'' else [])
                             in Inr (''    <'' @ tag @ span_attrs @ ''>''
                                     @ escape_html (JStr cell_text) @ ''</'' @ tag @ ''>''))))
           | _ \<Rightarrow> Inl AttributeError)
      | _ \<Rightarrow> Inl AttributeError)\<close>

fun cells_loop :: "json list \<Rightarrow> string list \<Rightarrow> py_error + string list" where
  "cells_loop [] html_parts = Inr html_parts"
| "cells_loop (cell # cells) html_parts =
     (case render_cell cell of
        Inl e \<Rightarrow> Inl e
      | Inr line \<Rightarrow> cells_loop cells (html_parts @ [line]))"

fun rows_loop :: "json list \<Rightarrow> string list \<Rightarrow> py_error + string list" where
  "rows_loop [] html_parts = Inr html_parts"
| "rows_loop (row # rows) html_parts =
     (case py_iter row of
        Inl e \<Rightarrow> Inl e
      | Inr cells \<Rightarrow>
          (case cells_loop cells (html_parts @ [''  <tr>'']) of
             Inl e \<Rightarrow> Inl e
           | Inr html_parts' \<Rightarrow> rows_loop rows (html_parts' @ [''  </tr>''])))"

definition process_table_item :: "json \<Rightarrow> py_error + string" where
  "process_table_item table_item =
     (case py_in ''data'' table_item of
        Inl e \<Rightarrow> Inl e
      | Inr has_data \<Rightarrow>
          if \<not> has_data then Inr []
          else
            (case getitem_str table_item ''data'' of
               Inl e \<Rightarrow> Inl e
             | Inr data \<Rightarrow>
                 (case py_in ''grid'' data of
                    Inl e \<Rightarrow> Inl e
                  | Inr has_grid \<Rightarrow>
                      if \<not> has_grid then Inr []
                      else
                        (case getitem_str data ''grid'' of
                           Inl e \<Rightarrow> Inl e
                         | Inr grid \<Rightarrow>
                             if \<not> truthy grid then Inr []
                             else
                               (case py_iter grid of
                                  Inl e \<Rightarrow> Inl e
                                | Inr rows \<Rightarrow>
                                    (case rows_loop rows [''<table>''] of
                                       Inl e \<Rightarrow> Inl e
                                     | Inr html_parts \<Rightarrow>
                                         Inr (join_str ''\<newline>''
                                                (html_parts @ [''</table>'']))))))))"

subsection \<open>Pictures\<close>

definition process_picture_item :: "json \<Rightarrow> py_error + string" where
  \<open>process_picture_item picture_item =
     (case py_in ''data'' picture_item of
        Inl e \<Rightarrow> Inl e
      | Inr has_data \<Rightarrow>
          if \<not> has_data then Inr ''<div class="image-placeholder">[Missing Image]</div>''
          else
            (case getitem_str picture_item ''data'' of
               Inl e \<Rightarrow> Inl e
             | Inr img_data \<Rightarrow>
                 (case picture_item of
                    JDict item \<Rightarrow>
                      (let img_format = dict_get item ''format'' (JStr ''png'');
                           img_src = ''data:image/'' @ py_str img_format @ '';base64,''
                                     @ py_str img_data
                       in Inr (''<img src="'' @ img_src
                               @ ''" alt="Embedded Image" style="max-width:100%; height:auto; margin:10px 0;" />''))
                  | _ \<Rightarrow> Inl AttributeError)))\<close>

section \<open>The dispatch loop\<close>

text \<open>The body of the \<^verbatim>\<open>try\<close> block (lines 117 to 124): the fragment to append, if any.\<close>

definition try_block :: "json \<Rightarrow> json \<Rightarrow> py_error + string option" where
  "try_block ref json_content =
     (case resolve_reference ref json_content of
        Inl e \<Rightarrow> Inl e
      | Inr content_item \<Rightarrow>
          (case ref of
             JStr r \<Rightarrow>
               if startswith r ''#/texts/''
                 then map_sum id Some (process_text_item content_item)
               else if startswith r ''#/tables/''
                 then map_sum id Some (process_table_item content_item)
               else if startswith r ''#/pictures/''
                 then map_sum id Some (process_picture_item content_item)
               else Inr None
           | _ \<Rightarrow> Inl AttributeError))"

text \<open>The body of the loop over the children (lines 112 to 128). The handler takes
  \<^verbatim>\<open>KeyError\<close> and \<^verbatim>\<open>IndexError\<close>; any other exception leaves the function.\<close>

definition process_child :: "json \<Rightarrow> json \<Rightarrow> string list \<Rightarrow> py_error + string list" where
  "process_child json_content child html_parts =
     (case py_in ''$ref'' child of
        Inl e \<Rightarrow> Inl e
      | Inr has_ref \<Rightarrow>
          if \<not> has_ref then Inr html_parts
          else
            (case getitem_str child ''$ref'' of
               Inl e \<Rightarrow> Inl e
             | Inr ref \<Rightarrow>
                 (case try_block ref json_content of
                    Inl e \<Rightarrow> if e = KeyError \<or> e = IndexError then Inr html_parts else Inl e
                  | Inr None \<Rightarrow> Inr html_parts
                  | Inr (Some fragment) \<Rightarrow> Inr (html_parts @ [fragment]))))"

fun children_loop :: "json \<Rightarrow> json list \<Rightarrow> string list \<Rightarrow> py_error + string list" where
  "children_loop json_content [] html_parts = Inr html_parts"
| "children_loop json_content (child # children) html_parts =
     (case process_child json_content child html_parts of
        Inl e \<Rightarrow> Inl e
      | Inr html_parts' \<Rightarrow> children_loop json_content children html_parts')"

text \<open>Line 131: the fragments that are not empty, one to a line.\<close>

definition join_parts :: "string list \<Rightarrow> string" where
  "join_parts html_parts = join_str ''\<newline>'' (filter (\<lambda>part. part \<noteq> []) html_parts)"

definition json_to_html :: "json \<Rightarrow> py_error + string" where
  "json_to_html json_content =
     (case py_in ''body'' json_content of
        Inl e \<Rightarrow> Inl e
      | Inr has_body \<Rightarrow>
          if \<not> has_body then Inr (join_parts [])
          else
            (case getitem_str json_content ''body'' of
               Inl e \<Rightarrow> Inl e
             | Inr body \<Rightarrow>
                 (case py_in ''children'' body of
                    Inl e \<Rightarrow> Inl e
                  | Inr has_children \<Rightarrow>
                      if \<not> has_children then Inr (join_parts [])
                      else
                        (case getitem_str body ''children'' of
                           Inl e \<Rightarrow> Inl e
                         | Inr children \<Rightarrow>
                             (case py_iter children of
                                Inl e \<Rightarrow> Inl e
                              | Inr entries \<Rightarrow>
                                  (case children_loop json_content entries [] of
                                     Inl e \<Rightarrow> Inl e
                                   | Inr html_parts \<Rightarrow> Inr (join_parts html_parts)))))))"

section \<open>The output as the specification describes it\<close>

text \<open>The fragments that one entry of the body contributes: the loop body run on an empty
  list of parts.\<close>

definition entry_fragments :: "json \<Rightarrow> json \<Rightarrow> py_error + string list" where
  "entry_fragments json_content child = process_child json_content child []"

text \<open>
  A cell as section 3 of the specification has it: text content, header flags, and span
  counts that are integers and default to 1. \<open>cell_markup_spec\<close> is the line that
  section 4.2.2 asks for: the tag by the header flags, the \<^verbatim>\<open>rowspan\<close> attribute when
  the row span exceeds 1, then the \<^verbatim>\<open>colspan\<close> attribute when the column span exceeds
  1, and the trimmed and escaped text. \<open>row_markup_spec\<close> is a row: its cells in order,
  between the lines that open and close it.
\<close>

definition span_of :: "(string \<times> json) list \<Rightarrow> string \<Rightarrow> int" where
  "span_of c k = (case dict_get c k (JInt 1) of JInt i \<Rightarrow> i | _ \<Rightarrow> 1)"

definition text_of :: "(string \<times> json) list \<Rightarrow> string" where
  "text_of c = (case dict_get c ''text'' (JStr []) of JStr s \<Rightarrow> s | _ \<Rightarrow> [])"

definition is_header_cell :: "(string \<times> json) list \<Rightarrow> bool" where
  "is_header_cell c \<longleftrightarrow>
     truthy (dict_get c ''column_header'' (JBool False))
     \<or> truthy (dict_get c ''row_header'' (JBool False))"

fun is_str :: "json \<Rightarrow> bool" where
  "is_str (JStr s) = True"
| "is_str v = False"

fun is_int :: "json \<Rightarrow> bool" where
  "is_int (JInt i) = True"
| "is_int v = False"

definition wf_cell :: "(string \<times> json) list \<Rightarrow> bool" where
  "wf_cell c \<longleftrightarrow>
     is_str (dict_get c ''text'' (JStr []))
     \<and> is_int (dict_get c ''row_span'' (JInt 1))
     \<and> is_int (dict_get c ''col_span'' (JInt 1))"

definition cell_markup_spec :: "(string \<times> json) list \<Rightarrow> string" where
  \<open>cell_markup_spec c =
     (let tag = (if is_header_cell c then ''th'' else ''td'')
      in ''    <'' @ tag
         @ (if span_of c ''row_span'' > 1
            then '' rowspan="'' @ str_int (span_of c ''row_span'') @ ''"'' else [])
         @ (if span_of c ''col_span'' > 1
            then '' colspan="'' @ str_int (span_of c ''col_span'') @ ''"'' else [])
         @ ''>'' @ escape_html (JStr (strip (text_of c))) @ ''</'' @ tag @ ''>'')\<close>

definition row_markup_spec :: "(string \<times> json) list list \<Rightarrow> string list" where
  "row_markup_spec row = [''  <tr>''] @ map cell_markup_spec row @ [''  </tr>'']"

section \<open>Auxiliary facts\<close>

subsection \<open>Replacement\<close>

lemma replace_str_single:
  "replace_str [c] new s = concat (map (\<lambda>x. if x = c then new else [x]) s)"
  by (induction s) (simp_all add: startswith_def)

lemma set_replace_str_single:
  "set (replace_str [c] new s) \<subseteq> (set s - {c}) \<union> set new"
  by (auto simp: replace_str_single split: if_splits)

lemma strip_marker_prefix:
  "replace_str ''#/'' [] (''#/'' @ s) = replace_str ''#/'' [] s"
  by (simp add: startswith_def)

text \<open>An occurrence of the marker is always found and deleted, and what stands before and
  after it is processed on its own.\<close>

lemma strip_marker_embedded:
  "replace_str ''#/'' [] (a @ ''#/'' @ b) = replace_str ''#/'' [] a @ replace_str ''#/'' [] b"
proof (induction a rule: length_induct)
  case (1 a)
  show ?case
  proof (cases a)
    case Nil
    then show ?thesis by (simp add: startswith_def)
  next
    case outer: (Cons c cs)
    show ?thesis
    proof (cases cs)
      case Nil
      with outer show ?thesis by (simp add: startswith_def)
    next
      case (Cons d ds)
      with outer have "length ds < length a" "length cs < length a" by simp_all
      with 1 have
        "replace_str ''#/'' [] (ds @ ''#/'' @ b) = replace_str ''#/'' [] ds @ replace_str ''#/'' [] b"
        "replace_str ''#/'' [] (cs @ ''#/'' @ b) = replace_str ''#/'' [] cs @ replace_str ''#/'' [] b"
        by blast+
      with Cons outer show ?thesis by (simp add: startswith_def)
    qed
  qed
qed

text \<open>Two pieces are processed on their own unless joining them makes a new marker.\<close>

lemma strip_marker_append:
  "\<not> (a \<noteq> [] \<and> last a = CHR ''#'' \<and> b \<noteq> [] \<and> hd b = CHR ''/'') \<Longrightarrow>
     replace_str ''#/'' [] (a @ b) = replace_str ''#/'' [] a @ replace_str ''#/'' [] b"
proof (induction a rule: length_induct)
  case (1 a)
  show ?case
  proof (cases a)
    case Nil
    then show ?thesis by simp
  next
    case outer: (Cons c cs)
    show ?thesis
    proof (cases cs)
      case Nil
      with outer 1(2) show ?thesis
        by (cases b) (auto simp: startswith_def)
    next
      case (Cons d ds)
      with outer have len: "length ds < length a" "length cs < length a" by simp_all
      have e1: "\<not> (cs \<noteq> [] \<and> last cs = CHR ''#'' \<and> b \<noteq> [] \<and> hd b = CHR ''/'')"
        using 1(2) Cons outer by auto
      have e2: "ds \<noteq> [] \<Longrightarrow> \<not> (ds \<noteq> [] \<and> last ds = CHR ''#'' \<and> b \<noteq> [] \<and> hd b = CHR ''/'')"
        using 1(2) Cons outer by auto
      have ih1: "replace_str ''#/'' [] (cs @ b) = replace_str ''#/'' [] cs @ replace_str ''#/'' [] b"
        using 1(1) len e1 by blast
      have ih2: "replace_str ''#/'' [] (ds @ b) = replace_str ''#/'' [] ds @ replace_str ''#/'' [] b"
      proof (cases "ds = []")
        case True
        then show ?thesis by simp
      next
        case False
        then show ?thesis using 1(1) len e2 by blast
      qed
      show ?thesis
        using ih1 ih2 Cons outer by (simp add: startswith_def)
    qed
  qed
qed

subsection \<open>The loops\<close>

lemma render_cell_wf:
  "wf_cell c \<Longrightarrow> render_cell (JDict c) = Inr (cell_markup_spec c)"
  unfolding wf_cell_def render_cell_def cell_markup_spec_def span_of_def text_of_def is_header_cell_def
  by (cases "dict_get c ''text'' (JStr [])"; cases "dict_get c ''row_span'' (JInt 1)";
      cases "dict_get c ''col_span'' (JInt 1)")
     (simp_all add: Let_def)

lemma cells_loop_wf:
  "\<forall>c \<in> set row. wf_cell c \<Longrightarrow>
     cells_loop (map JDict row) html_parts = Inr (html_parts @ map cell_markup_spec row)"
  by (induction row arbitrary: html_parts) (simp_all add: render_cell_wf)

lemma rows_loop_wf:
  "\<forall>row \<in> set grid. \<forall>c \<in> set row. wf_cell c \<Longrightarrow>
     rows_loop (map (\<lambda>row. JList (map JDict row)) grid) html_parts
       = Inr (html_parts @ concat (map row_markup_spec grid))"
  by (induction grid arbitrary: html_parts) (simp_all add: cells_loop_wf row_markup_spec_def)

lemma process_child_parts:
  "process_child json_content child html_parts =
     (case entry_fragments json_content child of
        Inl e \<Rightarrow> Inl e
      | Inr fragments \<Rightarrow> Inr (html_parts @ fragments))"
  by (simp add: entry_fragments_def process_child_def split: sum.splits option.splits)

lemma children_loop_parts:
  "list_all2 (\<lambda>child fragments. entry_fragments json_content child = Inr fragments)
     children per_child
   \<Longrightarrow> children_loop json_content children html_parts = Inr (html_parts @ concat per_child)"
proof (induction children arbitrary: per_child html_parts)
  case Nil
  then show ?case by simp
next
  case (Cons child children)
  then obtain fragments rest where p: "per_child = fragments # rest"
    and f: "entry_fragments json_content child = Inr fragments"
    and r: "list_all2 (\<lambda>child fragments. entry_fragments json_content child = Inr fragments)
              children rest"
    by (auto simp: list_all2_Cons1)
  show ?case
    by (simp add: process_child_parts [of json_content child html_parts] f p Cons.IH [OF r])
qed

lemma children_loop_append:
  "children_loop json_content (xs @ ys) html_parts =
     (case children_loop json_content xs html_parts of
        Inl e \<Rightarrow> Inl e
      | Inr html_parts' \<Rightarrow> children_loop json_content ys html_parts')"
  by (induction xs arbitrary: html_parts) (simp_all split: sum.splits)

text \<open>What the handler of the dispatch loop does take: an entry whose pointer fails with
  \<^verbatim>\<open>KeyError\<close> or \<^verbatim>\<open>IndexError\<close> leaves the parts as they are.\<close>

lemma process_child_unresolved:
  assumes "map_of child ''$ref'' = Some ref"
      and "resolve_reference ref json_content = Inl e"
      and "e = KeyError \<or> e = IndexError"
  shows "process_child json_content (JDict child) html_parts = Inr html_parts"
  using assms by (auto simp add: process_child_def try_block_def)

section \<open>HTML escaping (C5)\<close>

text \<open>
  C5. \<open>escape_html\<close> turns its argument into a string if it is not one, then replaces
  \<^verbatim>\<open>&\<close>, \<^verbatim>\<open><\<close>, \<^verbatim>\<open>>\<close>, the double quote and the single quote, in this order.
  For a string this escapes every character of the input once, and for every input the
  result holds none of \<^verbatim>\<open><\<close>, \<^verbatim>\<open>>\<close>, the double quote and the single quote.
\<close>

theorem escape_html_replacements:
  "escape_html v =
     replace_str [CHR 0x27] ''&#x27;''
       (replace_str [CHR 0x22] ''&quot;''
         (replace_str ''>'' ''&gt;''
           (replace_str ''<'' ''&lt;''
             (replace_str ''&'' ''&amp;'' (py_str v)))))
   \<and> escape_html (JStr s) =
       concat (map (\<lambda>c. if c = CHR ''&'' then ''&amp;''
                         else if c = CHR ''<'' then ''&lt;''
                         else if c = CHR ''>'' then ''&gt;''
                         else if c = CHR 0x22 then ''&quot;''
                         else if c = CHR 0x27 then ''&#x27;''
                         else [c]) s)
   \<and> CHR ''<'' \<notin> set (escape_html v) \<and> CHR ''>'' \<notin> set (escape_html v)
   \<and> CHR 0x22 \<notin> set (escape_html v) \<and> CHR 0x27 \<notin> set (escape_html v)"
proof -
  define s1 where "s1 = replace_str ''&'' ''&amp;'' (py_str v)"
  define s2 where "s2 = replace_str ''<'' ''&lt;'' s1"
  define s3 where "s3 = replace_str ''>'' ''&gt;'' s2"
  define s4 where "s4 = replace_str [CHR 0x22] ''&quot;'' s3"
  have chain: "escape_html v = replace_str [CHR 0x27] ''&#x27;'' s4"
    unfolding s1_def s2_def s3_def s4_def by (cases v) (simp_all add: escape_html_def)
  have charwise: "escape_html (JStr s) =
       concat (map (\<lambda>c. if c = CHR ''&'' then ''&amp;''
                         else if c = CHR ''<'' then ''&lt;''
                         else if c = CHR ''>'' then ''&gt;''
                         else if c = CHR 0x22 then ''&quot;''
                         else if c = CHR 0x27 then ''&#x27;''
                         else [c]) s)"
    by (induction s) (simp_all add: escape_html_def replace_str_single)
  have 2: "CHR ''<'' \<notin> set s2"
    using set_replace_str_single [of "CHR ''<''" "''&lt;''" s1] by (auto simp: s2_def)
  have 3: "CHR ''<'' \<notin> set s3 \<and> CHR ''>'' \<notin> set s3"
    using 2 set_replace_str_single [of "CHR ''>''" "''&gt;''" s2] by (auto simp: s3_def)
  have 4: "CHR ''<'' \<notin> set s4 \<and> CHR ''>'' \<notin> set s4 \<and> CHR 0x22 \<notin> set s4"
    using 3 set_replace_str_single [of "CHR 0x22" "''&quot;''" s3] by (auto simp: s4_def)
  have 5: "CHR ''<'' \<notin> set (escape_html v) \<and> CHR ''>'' \<notin> set (escape_html v)
           \<and> CHR 0x22 \<notin> set (escape_html v) \<and> CHR 0x27 \<notin> set (escape_html v)"
    using 4 set_replace_str_single [of "CHR 0x27" "''&#x27;''" s4] by (auto simp: chain)
  from chain charwise 5 show ?thesis
    unfolding s1_def s2_def s3_def s4_def by blast
qed

section \<open>Text nodes (C2, C3)\<close>

text \<open>
  The claim C2 as it is written fails: a long bold text that is also italic keeps its
  \<^verbatim>\<open><em>\<close> inside the heading. The node has 51 letters, \<^verbatim>\<open>bold\<close> and \<^verbatim>\<open>italic\<close>.
\<close>

theorem long_bold_italic_counterexample:
  "strip (replicate 51 (CHR ''a'')) \<noteq> []
   \<and> length (strip (replicate 51 (CHR ''a''))) > 50
   \<and> truthy (dict_get [(''bold'', JBool True), (''italic'', JBool True)] ''bold'' JNull)
   \<and> process_text_item
        (JDict [(''text'', JStr (replicate 51 (CHR ''a''))),
                (''formatting'', JDict [(''bold'', JBool True), (''italic'', JBool True)])])
      = Inr (''<h2><em>'' @ replicate 51 (CHR ''a'') @ ''</em></h2>'')
   \<and> process_text_item
        (JDict [(''text'', JStr (replicate 51 (CHR ''a''))),
                (''formatting'', JDict [(''bold'', JBool True), (''italic'', JBool True)])])
      \<noteq> Inr (''<h2>'' @ escape_html (JStr (strip (replicate 51 (CHR ''a'')))) @ ''</h2>'')"
  by code_simp

text \<open>
  C2, amended. For every text node whose trimmed text is longer than 50 characters and
  that is marked bold, \<open>process_text_item\<close> returns an \<^verbatim>\<open><h2>\<close> element whatever the
  label is. Its content is the escaped trimmed text, wrapped in \<^verbatim>\<open><em>\<close> if the node is
  italic, else in \<^verbatim>\<open><u>\<close> if it is underlined, else in \<^verbatim>\<open><del>\<close> if it is struck
  through, and bare if it has none of the three flags.
\<close>

theorem process_text_item_long_bold:
  assumes "dict_get item ''text'' (JStr []) = JStr raw"
      and "dict_get item ''formatting'' (JDict []) = JDict formatting"
      and "truthy (dict_get formatting ''bold'' JNull)"
      and "length (strip raw) > 50"
  shows "process_text_item (JDict item) =
           Inr (''<h2>''
                @ (if truthy (dict_get formatting ''italic'' JNull)
                     then ''<em>'' @ escape_html (JStr (strip raw)) @ ''</em>''
                   else if truthy (dict_get formatting ''underline'' JNull)
                     then ''<u>'' @ escape_html (JStr (strip raw)) @ ''</u>''
                   else if truthy (dict_get formatting ''strikethrough'' JNull)
                     then ''<del>'' @ escape_html (JStr (strip raw)) @ ''</del>''
                   else escape_html (JStr (strip raw)))
                @ ''</h2>'')"
proof -
  from assms(4) have "strip raw \<noteq> []" by auto
  with assms show ?thesis
    by (simp add: process_text_item_def text_element_def other_formatting_def)
qed

theorem process_text_item_long_bold_witness:
  "process_text_item
     (JDict [(''text'', JStr (''  '' @ replicate 51 (CHR ''a''))), (''label'', JStr ''title''),
             (''formatting'', JDict [(''bold'', JBool True)])])
   = Inr (''<h2>'' @ replicate 51 (CHR ''a'') @ ''</h2>'')"
proof -
  let ?formatting = "[(''bold'', JBool True)]"
  let ?raw = "''  '' @ replicate 51 (CHR ''a'')"
  let ?item = "[(''text'', JStr ?raw), (''label'', JStr ''title''),
                (''formatting'', JDict ?formatting)]"
  have s: "strip ?raw = replicate 51 (CHR ''a'')"
    by code_simp
  have e: "escape_html (JStr (replicate 51 (CHR ''a''))) = replicate 51 (CHR ''a'')"
    by code_simp
  have h1: "dict_get ?item ''text'' (JStr []) = JStr ?raw"
    and h2: "dict_get ?item ''formatting'' (JDict []) = JDict ?formatting"
    and h3: "truthy (dict_get ?formatting ''bold'' JNull)"
    by (simp_all add: dict_get_def)
  have h4: "length (strip ?raw) > 50"
    unfolding s by simp
  from process_text_item_long_bold [OF h1 h2 h3 h4] show ?thesis
    unfolding s e by (simp add: dict_get_def)
qed

text \<open>
  C3. A bold text node whose trimmed text has exactly 50 characters is rendered as a
  paragraph holding a \<^verbatim>\<open><strong>\<close> element with the escaped text, whatever the label
  is; with exactly 51 characters the result is wrapped in \<^verbatim>\<open><h2>\<close>.
\<close>

theorem process_text_item_bold_boundary:
  assumes "dict_get item ''text'' (JStr []) = JStr raw"
      and "dict_get item ''formatting'' (JDict []) = JDict formatting"
      and "truthy (dict_get formatting ''bold'' JNull)"
  shows "(length (strip raw) = 50 \<longrightarrow>
            process_text_item (JDict item) =
              Inr (''<p><strong>'' @ escape_html (JStr (strip raw)) @ ''</strong></p>''))
       \<and> (length (strip raw) = 51 \<longrightarrow>
            process_text_item (JDict item) =
              Inr (''<h2>'' @ other_formatting formatting (strip raw) @ ''</h2>''))"
proof (intro conjI impI)
  assume len: "length (strip raw) = 50"
  then have "strip raw \<noteq> []" by auto
  with assms len show "process_text_item (JDict item) =
      Inr (''<p><strong>'' @ escape_html (JStr (strip raw)) @ ''</strong></p>'')"
    by (simp add: process_text_item_def)
next
  assume len: "length (strip raw) = 51"
  then have "strip raw \<noteq> []" by auto
  with assms len show "process_text_item (JDict item) =
      Inr (''<h2>'' @ other_formatting formatting (strip raw) @ ''</h2>'')"
    by (simp add: process_text_item_def text_element_def)
qed

theorem process_text_item_bold_boundary_witness:
  "process_text_item
     (JDict [(''text'', JStr (replicate 50 (CHR ''a''))), (''label'', JStr ''heading''),
             (''formatting'', JDict [(''bold'', JBool True)])])
   = Inr (''<p><strong>'' @ replicate 50 (CHR ''a'') @ ''</strong></p>'')
   \<and> process_text_item
     (JDict [(''text'', JStr (replicate 51 (CHR ''a''))), (''label'', JStr ''heading''),
             (''formatting'', JDict [(''bold'', JBool True)])])
   = Inr (''<h2>'' @ replicate 51 (CHR ''a'') @ ''</h2>'')"
proof -
  let ?formatting = "[(''bold'', JBool True)]"
  let ?item = "\<lambda>n. [(''text'', JStr (replicate n (CHR ''a''))), (''label'', JStr ''heading''),
                     (''formatting'', JDict ?formatting)]"
  have s50: "strip (replicate 50 (CHR ''a'')) = replicate 50 (CHR ''a'')"
    and s51: "strip (replicate 51 (CHR ''a'')) = replicate 51 (CHR ''a'')"
    by code_simp+
  have e50: "escape_html (JStr (replicate 50 (CHR ''a''))) = replicate 50 (CHR ''a'')"
    and e51: "other_formatting ?formatting (replicate 51 (CHR ''a'')) = replicate 51 (CHR ''a'')"
    by code_simp+
  have h1: "dict_get (?item n) ''text'' (JStr []) = JStr (replicate n (CHR ''a''))"
    and h2: "dict_get (?item n) ''formatting'' (JDict []) = JDict ?formatting"
    and h3: "truthy (dict_get ?formatting ''bold'' JNull)" for n
    by (simp_all add: dict_get_def)
  have l50: "length (strip (replicate 50 (CHR ''a''))) = 50"
    and l51: "length (strip (replicate 51 (CHR ''a''))) = 51"
    unfolding s50 s51 by simp_all
  from process_text_item_bold_boundary [OF h1 h2 h3, of 50] l50
  have a: "process_text_item (JDict (?item 50)) =
      Inr (''<p><strong>'' @ escape_html (JStr (strip (replicate 50 (CHR ''a'')))) @ ''</strong></p>'')"
    by blast
  from process_text_item_bold_boundary [OF h1 h2 h3, of 51] l51
  have b: "process_text_item (JDict (?item 51)) =
      Inr (''<h2>'' @ other_formatting ?formatting (strip (replicate 51 (CHR ''a''))) @ ''</h2>'')"
    by blast
  from a b show ?thesis
    unfolding s50 s51 e50 e51 by simp
qed


section \<open>Pictures (C7)\<close>

text \<open>
  C7. A picture node without a \<^verbatim>\<open>data\<close> payload is rendered as the placeholder element and
  not as an image. A picture node with payload \<open>p\<close> and format \<open>f\<close> is rendered as an
  \<^verbatim>\<open><img>\<close> element whose source is \<^verbatim>\<open>data:image/\<close>, \<open>f\<close>, \<^verbatim>\<open>;base64,\<close> and \<open>p\<close>;
  a node without a format gets \<^verbatim>\<open>png\<close>.
\<close>

theorem process_picture_item_payload:
  \<open>(map_of item ''data'' = None \<longrightarrow>
      process_picture_item (JDict item) =
        Inr ''<div class="image-placeholder">[Missing Image]</div>'')
   \<and> (map_of item ''data'' = Some (JStr p) \<and> map_of item ''format'' = Some (JStr f) \<longrightarrow>
      process_picture_item (JDict item) =
        Inr (''<img src="'' @ (''data:image/'' @ f @ '';base64,'' @ p)
             @ ''" alt="Embedded Image" style="max-width:100%; height:auto; margin:10px 0;" />''))
   \<and> (map_of item ''data'' = Some (JStr p) \<and> map_of item ''format'' = None \<longrightarrow>
      process_picture_item (JDict item) =
        Inr (''<img src="'' @ (''data:image/'' @ ''png'' @ '';base64,'' @ p)
             @ ''" alt="Embedded Image" style="max-width:100%; height:auto; margin:10px 0;" />''))\<close>
  by (simp add: process_picture_item_def dict_get_def)

theorem process_picture_item_payload_witness:
  \<open>process_picture_item (JDict [(''label'', JStr ''picture'')]) =
     Inr ''<div class="image-placeholder">[Missing Image]</div>''
   \<and> process_picture_item (JDict [(''data'', JStr ''QQ==''), (''format'', JStr ''jpeg'')]) =
     Inr ''<img src="data:image/jpeg;base64,QQ==" alt="Embedded Image" style="max-width:100%; height:auto; margin:10px 0;" />''
   \<and> process_picture_item (JDict [(''data'', JStr ''QQ=='')]) =
     Inr ''<img src="data:image/png;base64,QQ==" alt="Embedded Image" style="max-width:100%; height:auto; margin:10px 0;" />''\<close>
proof -
  have a: "map_of [(''label'', JStr ''picture'')] ''data'' = None"
    by simp
  have b: "map_of [(''data'', JStr ''QQ==''), (''format'', JStr ''jpeg'')] ''data'' = Some (JStr ''QQ=='')
           \<and> map_of [(''data'', JStr ''QQ==''), (''format'', JStr ''jpeg'')] ''format'' = Some (JStr ''jpeg'')"
    by simp
  have c: "map_of [(''data'', JStr ''QQ=='')] ''data'' = Some (JStr ''QQ=='')
           \<and> map_of [(''data'', JStr ''QQ=='')] ''format'' = None"
    by simp
  from a process_picture_item_payload [of "[(''label'', JStr ''picture'')]"]
  have 1: \<open>process_picture_item (JDict [(''label'', JStr ''picture'')]) =
     Inr ''<div class="image-placeholder">[Missing Image]</div>''\<close>
    by blast
  from b process_picture_item_payload
         [of "[(''data'', JStr ''QQ==''), (''format'', JStr ''jpeg'')]" "''QQ==''" "''jpeg''"]
  have 2: \<open>process_picture_item (JDict [(''data'', JStr ''QQ==''), (''format'', JStr ''jpeg'')]) =
     Inr (''<img src="'' @ (''data:image/'' @ ''jpeg'' @ '';base64,'' @ ''QQ=='')
          @ ''" alt="Embedded Image" style="max-width:100%; height:auto; margin:10px 0;" />'')\<close>
    by blast
  from c process_picture_item_payload [of "[(''data'', JStr ''QQ=='')]" "''QQ==''"]
  have 3: \<open>process_picture_item (JDict [(''data'', JStr ''QQ=='')]) =
     Inr (''<img src="'' @ (''data:image/'' @ ''png'' @ '';base64,'' @ ''QQ=='')
          @ ''" alt="Embedded Image" style="max-width:100%; height:auto; margin:10px 0;" />'')\<close>
    by blast
  from 1 2 3 show ?thesis by simp
qed

section \<open>Absent body, absent grid (C8)\<close>

text \<open>
  C8. For a document without a \<^verbatim>\<open>body\<close> field, and for one whose body has no
  \<^verbatim>\<open>children\<close> field, \<open>json_to_html\<close> returns the empty string and raises nothing. For a
  table node without \<^verbatim>\<open>data\<close>, for one whose data has no \<^verbatim>\<open>grid\<close>, and for one whose
  grid is empty, \<open>process_table_item\<close> returns the empty string and raises nothing.
\<close>

theorem absent_body_or_grid_is_empty:
  "(map_of doc ''body'' = None \<longrightarrow> json_to_html (JDict doc) = Inr [])
   \<and> (map_of doc ''body'' = Some (JDict body) \<and> map_of body ''children'' = None \<longrightarrow>
        json_to_html (JDict doc) = Inr [])
   \<and> (map_of tbl ''data'' = None \<longrightarrow> process_table_item (JDict tbl) = Inr [])
   \<and> (map_of tbl ''data'' = Some (JDict data) \<and> map_of data ''grid'' = None \<longrightarrow>
        process_table_item (JDict tbl) = Inr [])
   \<and> (map_of tbl ''data'' = Some (JDict data) \<and> map_of data ''grid'' = Some (JList []) \<longrightarrow>
        process_table_item (JDict tbl) = Inr [])"
  by (simp add: json_to_html_def join_parts_def process_table_item_def)

theorem absent_body_or_grid_is_empty_witness:
  "json_to_html (JDict [(''texts'', JList [])]) = Inr []
   \<and> json_to_html (JDict [(''body'', JDict [(''name'', JStr ''_root_'')])]) = Inr []
   \<and> process_table_item (JDict [(''label'', JStr ''table'')]) = Inr []
   \<and> process_table_item (JDict [(''data'', JDict [(''num_rows'', JInt 0)])]) = Inr []
   \<and> process_table_item (JDict [(''data'', JDict [(''grid'', JList [])])]) = Inr []"
proof -
  have a: "map_of [(''texts'', JList [])] ''body'' = None"
    and c: "map_of [(''label'', JStr ''table'')] ''data'' = None"
    by simp_all
  have b: "map_of [(''body'', JDict [(''name'', JStr ''_root_'')])] ''body''
             = Some (JDict [(''name'', JStr ''_root_'')])
           \<and> map_of [(''name'', JStr ''_root_'')] ''children'' = None"
    by simp
  have d: "map_of [(''data'', JDict [(''num_rows'', JInt 0)])] ''data''
             = Some (JDict [(''num_rows'', JInt 0)])
           \<and> map_of [(''num_rows'', JInt 0)] ''grid'' = None"
    by simp
  have e: "map_of [(''data'', JDict [(''grid'', JList [])])] ''data''
             = Some (JDict [(''grid'', JList [])])
           \<and> map_of [(''grid'', JList [])] ''grid'' = Some (JList [])"
    by simp
  from a absent_body_or_grid_is_empty [of "[(''texts'', JList [])]"]
  have 1: "json_to_html (JDict [(''texts'', JList [])]) = Inr []"
    by blast
  from b absent_body_or_grid_is_empty
         [of "[(''body'', JDict [(''name'', JStr ''_root_'')])]" "[(''name'', JStr ''_root_'')]"]
  have 2: "json_to_html (JDict [(''body'', JDict [(''name'', JStr ''_root_'')])]) = Inr []"
    by blast
  from c absent_body_or_grid_is_empty [of _ _ "[(''label'', JStr ''table'')]"]
  have 3: "process_table_item (JDict [(''label'', JStr ''table'')]) = Inr []"
    by blast
  from d absent_body_or_grid_is_empty
         [of _ _ "[(''data'', JDict [(''num_rows'', JInt 0)])]" "[(''num_rows'', JInt 0)]"]
  have 4: "process_table_item (JDict [(''data'', JDict [(''num_rows'', JInt 0)])]) = Inr []"
    by blast
  from e absent_body_or_grid_is_empty
         [of _ _ "[(''data'', JDict [(''grid'', JList [])])]" "[(''grid'', JList [])]"]
  have 5: "process_table_item (JDict [(''data'', JDict [(''grid'', JList [])])]) = Inr []"
    by blast
  from 1 2 3 4 5 show ?thesis by blast
qed

section \<open>Entries without a pointer (C10)\<close>

text \<open>
  C10. An entry of \<^verbatim>\<open>body.children\<close> that has no \<^verbatim>\<open>$ref\<close> field is skipped: the loop
  body leaves the parts as they are and raises nothing, and \<open>json_to_html\<close> gives what
  the loop gives on the entries before and after it.
\<close>

theorem child_without_ref_skipped:
  assumes "map_of doc ''body'' = Some (JDict body)"
      and "map_of body ''children'' = Some (JList (before @ JDict child # after))"
      and "map_of child ''$ref'' = None"
  shows "process_child (JDict doc) (JDict child) html_parts = Inr html_parts
       \<and> json_to_html (JDict doc) =
           (case children_loop (JDict doc) (before @ after) [] of
              Inl e \<Rightarrow> Inl e
            | Inr html_parts \<Rightarrow> Inr (join_parts html_parts))"
proof -
  have skip: "process_child (JDict doc) (JDict child) parts = Inr parts" for parts
    using assms(3) by (simp add: process_child_def)
  have "children_loop (JDict doc) (before @ JDict child # after) [] =
        children_loop (JDict doc) (before @ after) []"
    by (simp add: children_loop_append skip split: sum.splits)
  with assms(1,2) skip show ?thesis
    by (simp add: json_to_html_def)
qed

theorem child_without_ref_skipped_witness:
  "process_child
     (JDict [(''body'', JDict [(''children'',
                JList [JDict [(''$ref'', JStr ''#/texts/0'')], JDict [(''cref'', JStr ''#/texts/1'')],
                       JDict [(''$ref'', JStr ''#/texts/1'')]])]),
             (''texts'', JList [JDict [(''text'', JStr ''a'')], JDict [(''text'', JStr ''b'')]])])
     (JDict [(''cref'', JStr ''#/texts/1'')]) [''<p>a</p>''] = Inr [''<p>a</p>'']
   \<and> json_to_html
     (JDict [(''body'', JDict [(''children'',
                JList [JDict [(''$ref'', JStr ''#/texts/0'')], JDict [(''cref'', JStr ''#/texts/1'')],
                       JDict [(''$ref'', JStr ''#/texts/1'')]])]),
             (''texts'', JList [JDict [(''text'', JStr ''a'')], JDict [(''text'', JStr ''b'')]])])
     = Inr ''<p>a</p>\<newline><p>b</p>''"
proof -
  let ?before = "[JDict [(''$ref'', JStr ''#/texts/0'')]]"
  let ?child = "[(''cref'', JStr ''#/texts/1'')]"
  let ?after = "[JDict [(''$ref'', JStr ''#/texts/1'')]]"
  let ?body = "[(''children'', JList (?before @ JDict ?child # ?after))]"
  let ?doc = "[(''body'', JDict ?body),
               (''texts'', JList [JDict [(''text'', JStr ''a'')], JDict [(''text'', JStr ''b'')]])]"
  have h1: "map_of ?doc ''body'' = Some (JDict ?body)"
    and h2: "map_of ?body ''children'' = Some (JList (?before @ JDict ?child # ?after))"
    and h3: "map_of ?child ''$ref'' = None"
    by simp_all
  have rest: "children_loop (JDict ?doc) (?before @ ?after) [] = Inr [''<p>a</p>'', ''<p>b</p>'']"
    by code_simp
  from child_without_ref_skipped [OF h1 h2 h3, of "[''<p>a</p>'']"] show ?thesis
    unfolding rest by (simp add: join_parts_def)
qed

section \<open>Pointers that do not resolve (C1)\<close>

text \<open>
  C1. The handler of the dispatch loop takes \<^verbatim>\<open>KeyError\<close> and \<^verbatim>\<open>IndexError\<close>, so a
  pointer with an index out of bounds or a missing key is skipped (\<open>process_child_unresolved\<close>
  above). A segment that is not a number, applied to a list, raises \<^verbatim>\<open>TypeError\<close>: below,
  the first pointer is \<^verbatim>\<open>#/texts/x\<close>, its resolution fails, and the exception leaves
  \<open>json_to_html\<close>, although the second pointer is valid and alone renders a paragraph.
\<close>

theorem json_to_html_wrong_shape_raises:
  "resolve_reference (JStr ''#/texts/x'')
     (JDict [(''body'', JDict [(''children'', JList [JDict [(''$ref'', JStr ''#/texts/x'')],
                                                    JDict [(''$ref'', JStr ''#/texts/0'')]])]),
             (''texts'', JList [JDict [(''text'', JStr ''a'')]])]) = Inl TypeError
   \<and> json_to_html
     (JDict [(''body'', JDict [(''children'', JList [JDict [(''$ref'', JStr ''#/texts/x'')],
                                                    JDict [(''$ref'', JStr ''#/texts/0'')]])]),
             (''texts'', JList [JDict [(''text'', JStr ''a'')]])]) = Inl TypeError
   \<and> json_to_html
     (JDict [(''body'', JDict [(''children'', JList [JDict [(''$ref'', JStr ''#/texts/0'')]])]),
             (''texts'', JList [JDict [(''text'', JStr ''a'')]])]) = Inr ''<p>a</p>''"
  by code_simp


section \<open>Order of the fragments (C4)\<close>

text \<open>
  C4. Let every entry of \<^verbatim>\<open>body.children\<close> be processed without an exception that leaves
  the loop, and let \<open>per_child\<close> hold, entry by entry, the fragments it contributes (none
  for a skipped entry). Then \<open>json_to_html\<close> returns the fragments that are not empty, in
  the order of their entries, joined by a single line feed.
\<close>

theorem json_to_html_order:
  assumes "map_of doc ''body'' = Some (JDict body)"
      and "map_of body ''children'' = Some (JList children)"
      and "list_all2 (\<lambda>child fragments. entry_fragments (JDict doc) child = Inr fragments)
             children per_child"
  shows "json_to_html (JDict doc) =
           Inr (join_str ''\<newline>'' (filter (\<lambda>fragment. fragment \<noteq> []) (concat per_child)))"
  using assms(1,2)
  by (simp add: json_to_html_def join_parts_def children_loop_parts [OF assms(3)])

theorem json_to_html_order_witness:
  \<open>json_to_html
     (JDict [(''body'', JDict [(''children'',
                JList [JDict [(''$ref'', JStr ''#/texts/0'')],
                       JDict [(''$ref'', JStr ''#/texts/99'')],
                       JDict [(''name'', JStr ''x'')],
                       JDict [(''$ref'', JStr ''#/texts/1'')],
                       JDict [(''$ref'', JStr ''#/pictures/0'')],
                       JDict [(''$ref'', JStr ''#/groups/0'')],
                       JDict [(''$ref'', JStr ''#/texts/2'')]])]),
             (''texts'', JList [JDict [(''text'', JStr ''a'')], JDict [(''text'', JStr ''  '')],
                                JDict [(''text'', JStr ''b''), (''label'', JStr ''title'')]]),
             (''pictures'', JList [JDict []]),
             (''groups'', JList [JDict []])])
   = Inr ''<p>a</p>\<newline><div class="image-placeholder">[Missing Image]</div>\<newline><h1>b</h1>''\<close>
proof -
  let ?children = "[JDict [(''$ref'', JStr ''#/texts/0'')],
                    JDict [(''$ref'', JStr ''#/texts/99'')],
                    JDict [(''name'', JStr ''x'')],
                    JDict [(''$ref'', JStr ''#/texts/1'')],
                    JDict [(''$ref'', JStr ''#/pictures/0'')],
                    JDict [(''$ref'', JStr ''#/groups/0'')],
                    JDict [(''$ref'', JStr ''#/texts/2'')]]"
  let ?body = "[(''children'', JList ?children)]"
  let ?doc = "[(''body'', JDict ?body),
               (''texts'', JList [JDict [(''text'', JStr ''a'')], JDict [(''text'', JStr ''  '')],
                                  JDict [(''text'', JStr ''b''), (''label'', JStr ''title'')]]),
               (''pictures'', JList [JDict []]),
               (''groups'', JList [JDict []])]"
  let ?per_child = \<open>[[''<p>a</p>''], [], [], [[]],
                     [''<div class="image-placeholder">[Missing Image]</div>''], [],
                     [''<h1>b</h1>'']]\<close>
  have h1: "map_of ?doc ''body'' = Some (JDict ?body)"
    and h2: "map_of ?body ''children'' = Some (JList ?children)"
    by simp_all
  have h3: "list_all2 (\<lambda>child fragments. entry_fragments (JDict ?doc) child = Inr fragments)
              ?children ?per_child"
    by code_simp
  from json_to_html_order [OF h1 h2 h3] show ?thesis
    by simp
qed

section \<open>Span attributes of table cells (C6)\<close>

text \<open>
  C6. For a table whose grid is a non-empty list of rows of cells, \<open>process_table_item\<close>
  returns the table with one line for each cell, in grid order, and the line of a cell is
  \<open>cell_markup_spec\<close>: the \<^verbatim>\<open>rowspan\<close> attribute with the value of \<^verbatim>\<open>row_span\<close> is there if and
  only if \<^verbatim>\<open>row_span\<close> exceeds 1, the \<^verbatim>\<open>colspan\<close> attribute if and only if \<^verbatim>\<open>col_span\<close>
  exceeds 1, \<^verbatim>\<open>rowspan\<close> comes first, and a cell with both spans equal to 1 is a plain
  \<^verbatim>\<open><td>\<close> or \<^verbatim>\<open><th>\<close>.
\<close>

theorem process_table_item_spans:
  assumes "map_of tbl ''data'' = Some (JDict data)"
      and "map_of data ''grid'' = Some (JList (map (\<lambda>row. JList (map JDict row)) grid))"
      and "grid \<noteq> []"
      and "\<forall>row \<in> set grid. \<forall>c \<in> set row. wf_cell c"
  shows "process_table_item (JDict tbl) =
           Inr (join_str ''\<newline>''
                  ([''<table>''] @ concat (map row_markup_spec grid) @ [''</table>'']))"
  using assms(1-3) by (simp add: process_table_item_def rows_loop_wf [OF assms(4)])

theorem process_table_item_spans_witness:
  \<open>process_table_item
     (JDict [(''data'', JDict [(''grid'',
        JList [JList [JDict [(''text'', JStr ''a''), (''row_span'', JInt 2), (''col_span'', JInt 1)],
                      JDict [(''text'', JStr ''b''), (''row_span'', JInt 1), (''col_span'', JInt 1)]],
               JList [JDict [(''text'', JStr '' c ''), (''column_header'', JBool True),
                             (''row_span'', JInt 12), (''col_span'', JInt 3)],
                      JDict [(''col_span'', JInt 2)]]])])])
   = Inr (join_str ''\<newline>''
            [''<table>'',
             ''  <tr>'',
             ''    <td rowspan="2">a</td>'',
             ''    <td>b</td>'',
             ''  </tr>'',
             ''  <tr>'',
             ''    <th rowspan="12" colspan="3">c</th>'',
             ''    <td colspan="2"></td>'',
             ''  </tr>'',
             ''</table>''])\<close>
proof -
  let ?grid = "[[[(''text'', JStr ''a''), (''row_span'', JInt 2), (''col_span'', JInt 1)],
                 [(''text'', JStr ''b''), (''row_span'', JInt 1), (''col_span'', JInt 1)]],
                [[(''text'', JStr '' c ''), (''column_header'', JBool True),
                  (''row_span'', JInt 12), (''col_span'', JInt 3)],
                 [(''col_span'', JInt 2)]]]"
  let ?data = "[(''grid'', JList (map (\<lambda>row. JList (map JDict row)) ?grid))]"
  let ?tbl = "[(''data'', JDict ?data)]"
  have h1: "map_of ?tbl ''data'' = Some (JDict ?data)"
    and h2: "map_of ?data ''grid'' = Some (JList (map (\<lambda>row. JList (map JDict row)) ?grid))"
    and h3: "?grid \<noteq> []"
    by simp_all
  have h4: "\<forall>row \<in> set ?grid. \<forall>c \<in> set row. wf_cell c"
    by (simp add: wf_cell_def dict_get_def)
  have m: \<open>concat (map row_markup_spec ?grid) =
             [''  <tr>'',
              ''    <td rowspan="2">a</td>'',
              ''    <td>b</td>'',
              ''  </tr>'',
              ''  <tr>'',
              ''    <th rowspan="12" colspan="3">c</th>'',
              ''    <td colspan="2"></td>'',
              ''  </tr>'']\<close>
    by code_simp
  from process_table_item_spans [OF h1 h2 h3 h4] show ?thesis
    unfolding m by simp
qed

section \<open>The prefix marker of a pointer (C9)\<close>

text \<open>
  The claim C9 as it is written fails in its last part: when the text before an embedded
  marker ends in \<^verbatim>\<open>#\<close> and the text after it starts with \<^verbatim>\<open>/\<close>, the pointer without the
  marker has a marker of its own at the seam, which is deleted in its turn. The pointer
  \<^verbatim>\<open>##//x\<close> is read as the path \<^verbatim>\<open>#/x\<close>, the pointer \<^verbatim>\<open>#/x\<close> as the path \<^verbatim>\<open>x\<close>.
\<close>

theorem embedded_marker_counterexample:
  "resolve_reference (JStr (''#'' @ ''#/'' @ ''/x''))
     (JDict [(''x'', JInt 1), (''#'', JDict [(''x'', JInt 2)])]) = Inr (JInt 2)
   \<and> resolve_reference (JStr (''#'' @ ''/x''))
     (JDict [(''x'', JInt 1), (''#'', JDict [(''x'', JInt 2)])]) = Inr (JInt 1)
   \<and> resolve_reference (JStr (''#'' @ ''#/'' @ ''/x''))
     (JDict [(''x'', JInt 1), (''#'', JDict [(''x'', JInt 2)])])
   \<noteq> resolve_reference (JStr (''#'' @ ''/x''))
     (JDict [(''x'', JInt 1), (''#'', JDict [(''x'', JInt 2)])])"
  by code_simp

text \<open>
  C9, amended. \<open>resolve_reference\<close> deletes every occurrence of \<^verbatim>\<open>#/\<close> in the pointer,
  wherever it stands, before it splits the path: a pointer with the marker between \<open>a\<close>
  and \<open>b\<close> is walked along what is left of \<open>a\<close> followed by what is left of \<open>b\<close>. Hence a
  pointer resolves as the same pointer with \<^verbatim>\<open>#/\<close> put in front, and a pointer with an
  embedded marker resolves as if the marker were absent, unless the text before the marker
  ends in \<^verbatim>\<open>#\<close> and the text after it starts with \<^verbatim>\<open>/\<close>.
\<close>

theorem resolve_reference_marker:
  "resolve_reference (JStr (''#/'' @ s)) d = resolve_reference (JStr s) d
   \<and> resolve_reference (JStr (a @ ''#/'' @ b)) d =
       navigate d (split_str (CHR ''/'') (replace_str ''#/'' [] a @ replace_str ''#/'' [] b))
   \<and> (\<not> (a \<noteq> [] \<and> last a = CHR ''#'' \<and> b \<noteq> [] \<and> hd b = CHR ''/'') \<longrightarrow>
       resolve_reference (JStr (a @ ''#/'' @ b)) d = resolve_reference (JStr (a @ b)) d)"
  using strip_marker_embedded [of a b] strip_marker_prefix [of s] strip_marker_append [of a b]
  by (simp add: resolve_reference_def del: replace_str.simps)

theorem resolve_reference_marker_witness:
  "resolve_reference (JStr ''#/texts#//1'')
     (JDict [(''texts'', JList [JStr ''p'', JStr ''q''])]) = Inr (JStr ''q'')
   \<and> resolve_reference (JStr ''#/texts/1'')
     (JDict [(''texts'', JList [JStr ''p'', JStr ''q''])]) = Inr (JStr ''q'')"
proof -
  let ?d = "JDict [(''texts'', JList [JStr ''p'', JStr ''q''])]"
  have side: "\<not> (''#/texts'' \<noteq> [] \<and> last ''#/texts'' = CHR ''#''
                  \<and> ''/1'' \<noteq> [] \<and> hd ''/1'' = CHR ''/'')"
    by simp
  from side resolve_reference_marker [of _ ?d "''#/texts''" "''/1''"]
  have "resolve_reference (JStr (''#/texts'' @ ''#/'' @ ''/1'')) ?d =
        resolve_reference (JStr (''#/texts'' @ ''/1'')) ?d"
    by blast
  moreover have "resolve_reference (JStr ''#/texts/1'') ?d = Inr (JStr ''q'')"
    by code_simp
  ultimately show ?thesis by simp
qed


end
